theory Spec2Isabelle
  imports Complex_Main "HOL-Library.Sublist"
begin

section \<open>JavaScript values used by both files\<close>

text \<open>
  Strings are lists of code units; the model covers the code units below 256, one
  \<^typ>\<open>char\<close> each. \<open>Math.random()\<close> is a parameter \<open>rnd\<close> of every function that
  draws from it; its contract is \<open>0 \<le> rnd < 1\<close>. Numbers are reals: the product
  \<open>rnd * 10000\<close> and its floor are taken exactly.
\<close>

definition digit_char :: "nat \<Rightarrow> char" where
  "digit_char d = ''0123456789'' ! d"

fun string_of_nat :: "nat \<Rightarrow> string" where
  "string_of_nat n =
     (if n < 10 then [digit_char n]
      else string_of_nat (n div 10) @ [digit_char (n mod 10)])"

declare string_of_nat.simps [simp del]

text \<open>Number to string, for an integer: what \<open>"..." + Math.floor(x)\<close> appends.\<close>

definition js_number_to_string :: "int \<Rightarrow> string" where
  "js_number_to_string i =
     (if i < 0 then CHR ''-'' # string_of_nat (nat (- i)) else string_of_nat (nat i))"

definition Math_floor :: "real \<Rightarrow> int" where
  "Math_floor x = \<lfloor>x\<rfloor>"


text \<open>\<open>String.prototype.trim\<close>: white space and line terminators go from both ends.\<close>

definition is_js_space :: "char \<Rightarrow> bool" where
  "is_js_space c = (c \<in> set [CHR 0x09, CHR 0x0A, CHR 0x0B, CHR 0x0C, CHR 0x0D, CHR 0x20, CHR 0xA0])"

definition trim :: "string \<Rightarrow> string" where
  "trim s = rev (dropWhile is_js_space (rev (dropWhile is_js_space s)))"

subsection \<open>JSON.stringify\<close>

datatype json =
    JNull
  | JBool bool
  | JNum int
  | JStr string
  | JArr "json list"
  | JObj "(string \<times> json) list"

definition hex_char :: "nat \<Rightarrow> char" where
  "hex_char d = ''0123456789abcdef'' ! d"

text \<open>
  \<open>CHR 0x22\<close> is the double quote and \<open>CHR 0x5C\<close> the backslash; the control
  characters have a short escape or the four-digit hexadecimal one.
\<close>

definition escape_char :: "char \<Rightarrow> string" where
  "escape_char c =
     (if c = CHR 0x22 then [CHR 0x5C, CHR 0x22]
      else if c = CHR 0x5C then [CHR 0x5C, CHR 0x5C]
      else if c = CHR 0x08 then [CHR 0x5C, CHR ''b'']
      else if c = CHR 0x09 then [CHR 0x5C, CHR ''t'']
      else if c = CHR 0x0A then [CHR 0x5C, CHR ''n'']
      else if c = CHR 0x0C then [CHR 0x5C, CHR ''f'']
      else if c = CHR 0x0D then [CHR 0x5C, CHR ''r'']
      else if (of_char c :: nat) < 32 then
        [CHR 0x5C, CHR ''u'', CHR ''0'', CHR ''0'',
         hex_char ((of_char c :: nat) div 16), hex_char ((of_char c :: nat) mod 16)]
      else [c])"

definition quote :: "string \<Rightarrow> string" where
  "quote s = CHR 0x22 # concat (map escape_char s) @ [CHR 0x22]"

fun JSON_stringify :: "json \<Rightarrow> string"
  and stringify_elements :: "json list \<Rightarrow> string"
  and stringify_members :: "(string \<times> json) list \<Rightarrow> string"
where
  "JSON_stringify JNull = ''null''"
| "JSON_stringify (JBool b) = (if b then ''true'' else ''false'')"
| "JSON_stringify (JNum i) = js_number_to_string i"
| "JSON_stringify (JStr s) = quote s"
| "JSON_stringify (JArr xs) = ''['' @ stringify_elements xs @ '']''"
| "JSON_stringify (JObj kvs) = ''{'' @ stringify_members kvs @ ''}''"
| "stringify_elements [] = []"
| "stringify_elements [x] = JSON_stringify x"
| "stringify_elements (x # y # ys) = JSON_stringify x @ '','' @ stringify_elements (y # ys)"
| "stringify_members [] = []"
| "stringify_members [(k, v)] = quote k @ '':'' @ JSON_stringify v"
| "stringify_members ((k, v) # kv # kvs) =
     quote k @ '':'' @ JSON_stringify v @ '','' @ stringify_members (kv # kvs)"

section \<open>The token endpoint: \<open>app/api/ably-token/route.ts\<close>\<close>

record Response =
  status :: nat
  body :: string
  headers :: "(string \<times> string) list"

text \<open>A thrown value or a rejected promise, with whatever detail it carries.\<close>

datatype js_error = JsError string

text \<open>
  The \<open>ably\<close> package is not part of the repository: the constructor \<open>Ably.Rest\<close> and
  \<open>client.auth.createTokenRequest\<close> are parameters. Either may throw (\<open>Inl\<close>); the
  token request that comes back is a JSON value.
\<close>

record 'c ably_package =
  Rest :: "string \<Rightarrow> js_error + 'c"
  createTokenRequest :: "'c \<Rightarrow> string \<Rightarrow> js_error + json"

text \<open>What the handler did to the package, in order, and what it logged.\<close>

datatype upstream_call = Rest_new string | Auth_createTokenRequest string

record handler_run =
  response :: Response
  upstream :: "upstream_call list"
  console :: "(string \<times> js_error) list"

definition new_Response :: "string \<Rightarrow> nat \<Rightarrow> (string \<times> string) list \<Rightarrow> Response" where
  "new_Response b st hs = \<lparr>status = st, body = b, headers = hs\<rparr>"

text \<open>The argument of \<open>createTokenRequest\<close>, line 15: the identity of the new user.\<close>

definition new_clientId :: "real \<Rightarrow> string" where
  "new_clientId rnd = ''amana-chat-user-'' @ js_number_to_string (Math_floor (rnd * 10000))"

text \<open>
  The body of the \<open>try\<close> block, lines 12 to 21: \<open>Inl\<close> is a throw, caught by \<open>GET\<close>.
  The second component is the list of calls made before leaving the block.
\<close>

definition try_block ::
  "'c ably_package \<Rightarrow> string \<Rightarrow> real \<Rightarrow> (js_error + Response) \<times> upstream_call list" where
  "try_block pkg key rnd =
     (case Rest pkg key of
        Inl err \<Rightarrow> (Inl err, [Rest_new key])
      | Inr client \<Rightarrow>
          (let clientId = new_clientId rnd
           in case createTokenRequest pkg client clientId of
                Inl err \<Rightarrow> (Inl err, [Rest_new key, Auth_createTokenRequest clientId])
              | Inr tokenRequest \<Rightarrow>
                  (Inr (new_Response (JSON_stringify tokenRequest) 200
                          [(''Content-Type'', ''application/json'')]),
                   [Rest_new key, Auth_createTokenRequest clientId])))"

text \<open>
  \<open>GET\<close>, with \<open>process.env.ABLY_API_KEY\<close> as \<open>env_key\<close>: \<open>None\<close> when the variable is
  unset. The test \<open>!process.env.ABLY_API_KEY\<close> holds for the unset variable and for
  the empty string.
\<close>

definition GET :: "string option \<Rightarrow> 'c ably_package \<Rightarrow> real \<Rightarrow> handler_run" where
  "GET env_key pkg rnd =
     (case env_key of
        None \<Rightarrow>
          \<lparr>response = new_Response (JSON_stringify (JObj [(''error'', JStr ''ABLY_API_KEY not set'')])) 500 [],
           upstream = [], console = []\<rparr>
      | Some key \<Rightarrow>
          if key = [] then
            \<lparr>response = new_Response (JSON_stringify (JObj [(''error'', JStr ''ABLY_API_KEY not set'')])) 500 [],
             upstream = [], console = []\<rparr>
          else
            (case try_block pkg key rnd of
               (Inr resp, calls) \<Rightarrow> \<lparr>response = resp, upstream = calls, console = []\<rparr>
             | (Inl err, calls) \<Rightarrow>
                 \<lparr>response = new_Response (JSON_stringify (JObj [(''error'', JStr ''Failed to create token'')])) 500 [],
                  upstream = calls, console = [(''Ably token error:'', err)]\<rparr>))"

subsection \<open>Three stand-ins for the package\<close>

text \<open>
  A client is the key it was made with. The first package signs: its token request
  names the public part of the key (up to the colon), the identity and a signature.
  The second rejects every signing call. The third signs, and puts the whole key in
  the token request.
\<close>

definition signing_package :: "string ably_package" where
  "signing_package =
     \<lparr>Rest = (\<lambda>key. Inr key),
      createTokenRequest = (\<lambda>client clientId.
        Inr (JObj [(''keyName'', JStr (takeWhile (\<lambda>c. c \<noteq> CHR '':'') client)),
                   (''clientId'', JStr clientId),
                   (''mac'', JStr ''c2lnbmF0dXJl'')]))\<rparr>"

definition rejecting_package :: "string ably_package" where
  "rejecting_package =
     \<lparr>Rest = (\<lambda>key. Inr key),
      createTokenRequest = (\<lambda>client clientId. Inl (JsError ''40101 invalid credentials''))\<rparr>"


section \<open>The chat component: \<open>App\<close>\<close>

text \<open>
  The fields of \<open>AblyMessage\<close> are \<open>id\<close>, \<open>name\<close>, \<open>data\<close> and \<open>timestamp\<close>; they carry
  the prefix \<open>msg_\<close> here, \<open>id\<close> being the identity function of HOL.
\<close>

record AblyMessage =
  msg_id :: string
  msg_name :: string
  msg_data :: string
  msg_timestamp :: int

text \<open>
  The handles of the realtime library are values that remember how they were made:
  a client its \<open>authUrl\<close>, a channel its client and its name.
\<close>

datatype AblyClient = AblyClient string

datatype AblyChannel = AblyChannel AblyClient string

text \<open>The calls the component makes on the realtime library, in order.\<close>

datatype transport_call =
    Realtime_new string
  | Channels_get AblyClient string
  | Subscribe AblyChannel
  | Publish AblyChannel string string
  | Close AblyClient

text \<open>
  Modelled from the spec: the connection state of section 3 and the error of section 7.
  The component keeps no connection state of its own and defines no error; the state
  lives in the realtime library, which is not part of the repository. The field
  \<open>conn\<close> below follows the table of section 4.2 and is read by no function of the
  component.
\<close>

datatype ConnectionState = Idle | Connecting | Connected | Suspended | Closed | Failed

datatype PublishError = NotConnectedError

text \<open>
  The six \<open>useState\<close> cells of \<open>App\<close>, then what surrounds them: whether the component
  is mounted, the transport's connection state, the calls made on the transport and
  the lines written with \<open>console.error\<close>.
\<close>

record App =
  ably :: "AblyClient option"
  channel :: "AblyChannel option"
  messages :: "AblyMessage list"
  messageText :: string
  username :: string
  ablyScriptLoaded :: bool
  mounted :: bool
  conn :: ConnectionState
  calls :: "transport_call list"
  logged :: "string list"

definition initial :: "real \<Rightarrow> App" where
  "initial rnd =
     \<lparr>ably = None, channel = None, messages = [], messageText = [],
      username = ''user-'' @ js_number_to_string (Math_floor (rnd * 10000)),
      ablyScriptLoaded = False, mounted = True, conn = Idle, calls = [], logged = []\<rparr>"

text \<open>The two handlers of the script element, lines 55 to 61.\<close>

definition script_onload :: "App \<Rightarrow> App" where
  "script_onload s = s\<lparr>ablyScriptLoaded := True\<rparr>"

definition script_onerror :: "App \<Rightarrow> App" where
  "script_onerror s = s\<lparr>logged := logged s @ [''Failed to load Ably script from CDN.'']\<rparr>"

text \<open>
  The second effect, lines 72 to 98. Constructing the client opens the transport, so
  the connection state becomes \<open>Connecting\<close>.
\<close>

definition init_effect :: "App \<Rightarrow> App" where
  "init_effect s =
     (if \<not> ablyScriptLoaded s then s
      else
        (let ablyClient = AblyClient ''/api/ably-token'';
             chatChannel = AblyChannel ablyClient ''amana-chat''
         in s\<lparr>calls := calls s @ [Realtime_new ''/api/ably-token'',
                                   Channels_get ablyClient ''amana-chat'',
                                   Subscribe chatChannel],
               conn := Connecting,
               ably := Some ablyClient,
               channel := Some chatChannel\<rparr>))"

text \<open>The callback given to \<open>chatChannel.subscribe\<close>, lines 87 to 90.\<close>

definition on_message :: "AblyMessage \<Rightarrow> App \<Rightarrow> App" where
  "on_message msg s = s\<lparr>messages := messages s @ [msg]\<rparr>"

text \<open>
  The cleanup the second effect returns, lines 100 to 102, for the client it closed
  over. Closing the transport puts the connection in \<open>Closed\<close>.
\<close>

definition cleanup :: "AblyClient \<Rightarrow> App \<Rightarrow> App" where
  "cleanup ablyClient s = s\<lparr>calls := calls s @ [Close ablyClient], conn := Closed\<rparr>"

text \<open>
  \<open>handleSendMessage\<close>, lines 111 to 123. It has no \<open>throw\<close> and returns no value: the
  first component is \<open>Inr ()\<close> on every path. The promise that \<open>channel.publish\<close>
  returns is dropped by the source.
\<close>

definition handleSendMessage :: "App \<Rightarrow> (PublishError + unit) \<times> App" where
  "handleSendMessage s =
     (if trim (messageText s) = [] then (Inr (), s)
      else
        (case channel s of
           Some ch \<Rightarrow>
             (Inr (),
              s\<lparr>calls := calls s @ [Publish ch (username s) (messageText s)],
                messageText := []\<rparr>)
         | None \<Rightarrow> (Inr (), s)))"

text \<open>The \<open>onChange\<close> handler of the input, line 176.\<close>

definition input_onChange :: "string \<Rightarrow> App \<Rightarrow> App" where
  "input_onChange v s = s\<lparr>messageText := v\<rparr>"

subsection \<open>Events\<close>

text \<open>
  Everything happens on one task queue, one event at a time: what the script element,
  the input, the form, the transport and React can do to the component.
\<close>

datatype event =
    ScriptOnload
  | ScriptOnerror
  | InputChange string
  | FormSubmit
  | ChannelMessage AblyMessage
  | TransportConnected
  | TransportDropped
  | TransportFailed
  | Unmount

text \<open>
  Modelled from the spec: the three transitions that the transport, which is not part
  of the repository, makes on its own (table of section 4.2): connected from
  \<open>Connecting\<close> or \<open>Suspended\<close>, dropped from \<open>Connected\<close>, failed from \<open>Connecting\<close>.
\<close>

definition transport_connected :: "App \<Rightarrow> App" where
  "transport_connected s =
     (if conn s = Connecting \<or> conn s = Suspended then s\<lparr>conn := Connected\<rparr> else s)"

definition transport_dropped :: "App \<Rightarrow> App" where
  "transport_dropped s = (if conn s = Connected then s\<lparr>conn := Suspended\<rparr> else s)"

definition transport_failed :: "App \<Rightarrow> App" where
  "transport_failed s = (if conn s = Connecting then s\<lparr>conn := Failed\<rparr> else s)"

text \<open>
  One event. React runs the second effect again when \<open>ablyScriptLoaded\<close> has changed,
  delivers nothing to an unmounted component and calls the cleanup of an effect that
  returned one once, at unmount. The transport calls the subscription callback only
  once the channel is subscribed.
\<close>

definition step :: "event \<Rightarrow> App \<Rightarrow> App" where
  "step e s =
     (if \<not> mounted s then s
      else
        (case e of
           ScriptOnload \<Rightarrow>
             (if ablyScriptLoaded s then s else init_effect (script_onload s))
         | ScriptOnerror \<Rightarrow> script_onerror s
         | InputChange v \<Rightarrow> input_onChange v s
         | FormSubmit \<Rightarrow> snd (handleSendMessage s)
         | ChannelMessage msg \<Rightarrow>
             (case channel s of None \<Rightarrow> s | Some ch \<Rightarrow> on_message msg s)
         | TransportConnected \<Rightarrow> transport_connected s
         | TransportDropped \<Rightarrow> transport_dropped s
         | TransportFailed \<Rightarrow> transport_failed s
         | Unmount \<Rightarrow>
             (case ably s of
                None \<Rightarrow> s\<lparr>mounted := False\<rparr>
              | Some ablyClient \<Rightarrow> (cleanup ablyClient s)\<lparr>mounted := False\<rparr>)))"

fun run :: "event list \<Rightarrow> App \<Rightarrow> App" where
  "run [] s = s"
| "run (e # es) s = run es (step e s)"

section \<open>Facts about the JavaScript values\<close>







lemma trim_Nil: "trim [] = []"
  by (simp add: trim_def)

lemma trim_nonempty: "trim s \<noteq> [] \<Longrightarrow> s \<noteq> []"
  using trim_Nil by blast

lemma unset_body:
  \<open>JSON_stringify (JObj [(''error'', JStr ''ABLY_API_KEY not set'')]) =
     ''{"error":"ABLY_API_KEY not set"}''\<close>
  by (simp add: quote_def escape_char_def)

lemma generic_body:
  \<open>JSON_stringify (JObj [(''error'', JStr ''Failed to create token'')]) =
     ''{"error":"Failed to create token"}''\<close>
  by (simp add: quote_def escape_char_def)

section \<open>The token endpoint\<close>

lemma try_block_throw_Rest:
  "Rest pkg key = Inl err \<Longrightarrow> try_block pkg key rnd = (Inl err, [Rest_new key])"
  by (simp add: try_block_def)

lemma try_block_throw_sign:
  "Rest pkg key = Inr client \<Longrightarrow> createTokenRequest pkg client (new_clientId rnd) = Inl err \<Longrightarrow>
   try_block pkg key rnd = (Inl err, [Rest_new key, Auth_createTokenRequest (new_clientId rnd)])"
  by (simp add: try_block_def)



text \<open>
  C2. While \<open>ABLY_API_KEY\<close> is unset (or empty, which the same test catches), the
  endpoint answers with status 500 and the body \<open>{"error":"ABLY_API_KEY not set"}\<close>, and
  it makes no call on the package: neither the constructor nor the signing call.
\<close>

theorem GET_secret_unset:
  assumes "env_key = None \<or> env_key = Some []"
  shows \<open>status (response (GET env_key pkg rnd)) = 500
         \<and> body (response (GET env_key pkg rnd)) = ''{"error":"ABLY_API_KEY not set"}''
         \<and> upstream (GET env_key pkg rnd) = []\<close>
  using assms
  by (auto simp: GET_def new_Response_def unset_body simp del: JSON_stringify.simps)

theorem GET_secret_unset_witness:
  \<open>status (response (GET None signing_package 0.5)) = 500
   \<and> body (response (GET None signing_package 0.5)) = ''{"error":"ABLY_API_KEY not set"}''
   \<and> upstream (GET None signing_package 0.5) = []\<close>
proof -
  have "None = None \<or> None = Some ([] :: string)" by simp
  then show ?thesis by (rule GET_secret_unset)
qed

text \<open>
  C3. When the constructor or the signing call throws or rejects with any error
  \<open>err\<close>, the handler catches it: the response is status 500 with the fixed body
  \<open>{"error":"Failed to create token"}\<close>, the same for every \<open>err\<close>, and \<open>err\<close> goes to the
  server's console only. \<open>GET\<close> returns a response on every path.
\<close>

theorem GET_upstream_throws:
  assumes "key \<noteq> []"
    and "Rest pkg key = Inl err \<or>
         (\<exists>client. Rest pkg key = Inr client
                  \<and> createTokenRequest pkg client (new_clientId rnd) = Inl err)"
  shows \<open>response (GET (Some key) pkg rnd) =
           \<lparr>status = 500, body = ''{"error":"Failed to create token"}'', headers = []\<rparr>
         \<and> console (GET (Some key) pkg rnd) = [(''Ably token error:'', err)]\<close>
proof -
  from assms(2) have "fst (try_block pkg key rnd) = Inl err"
  proof
    assume "Rest pkg key = Inl err"
    then show ?thesis by (simp add: try_block_throw_Rest)
  next
    assume "\<exists>client. Rest pkg key = Inr client
                     \<and> createTokenRequest pkg client (new_clientId rnd) = Inl err"
    then obtain client where "Rest pkg key = Inr client"
      and "createTokenRequest pkg client (new_clientId rnd) = Inl err" by blast
    then show ?thesis by (simp add: try_block_throw_sign)
  qed
  then obtain cs where "try_block pkg key rnd = (Inl err, cs)"
    by (cases "try_block pkg key rnd") simp
  with assms(1) show ?thesis
    by (simp add: GET_def new_Response_def generic_body del: JSON_stringify.simps)
qed

theorem GET_upstream_throws_witness:
  \<open>response (GET (Some ''sk_test_123'') rejecting_package 0.5) =
     \<lparr>status = 500, body = ''{"error":"Failed to create token"}'', headers = []\<rparr>
   \<and> console (GET (Some ''sk_test_123'') rejecting_package 0.5) =
       [(''Ably token error:'', JsError ''40101 invalid credentials'')]\<close>
proof -
  have k: "''sk_test_123'' \<noteq> []" by simp
  have t: "Rest rejecting_package ''sk_test_123'' = Inl (JsError ''40101 invalid credentials'') \<or>
         (\<exists>client. Rest rejecting_package ''sk_test_123'' = Inr client
            \<and> createTokenRequest rejecting_package client (new_clientId 0.5) =
                Inl (JsError ''40101 invalid credentials''))"
    by (simp add: rejecting_package_def)
  show ?thesis using GET_upstream_throws [OF k t] .
qed






section \<open>The chat component\<close>

lemma initial_half:
  "initial 0.5 =
     \<lparr>ably = None, channel = None, messages = [], messageText = [],
      username = ''user-5000'', ablyScriptLoaded = False, mounted = True, conn = Idle,
      calls = [], logged = []\<rparr>"
  by (simp add: initial_def Math_floor_def js_number_to_string_def string_of_nat.simps
        digit_char_def)

lemma trim_hello: "trim ''hello'' = ''hello''"
  by (simp add: trim_def is_js_space_def)

lemma trim_blanks: "trim ''   '' = []"
  by (simp add: trim_def is_js_space_def)

lemma loaded_state:
  "run [ScriptOnload] (initial 0.5) =
     \<lparr>ably = Some (AblyClient ''/api/ably-token''),
      channel = Some (AblyChannel (AblyClient ''/api/ably-token'') ''amana-chat''),
      messages = [], messageText = [], username = ''user-5000'',
      ablyScriptLoaded = True, mounted = True, conn = Connecting,
      calls = [Realtime_new ''/api/ably-token'',
               Channels_get (AblyClient ''/api/ably-token'') ''amana-chat'',
               Subscribe (AblyChannel (AblyClient ''/api/ably-token'') ''amana-chat'')],
      logged = []\<rparr>"
  unfolding initial_half
  by (simp add: step_def init_effect_def script_onload_def Let_def)

lemma typing_state:
  "run [ScriptOnload, InputChange ''hello''] (initial 0.5) =
     \<lparr>ably = Some (AblyClient ''/api/ably-token''),
      channel = Some (AblyChannel (AblyClient ''/api/ably-token'') ''amana-chat''),
      messages = [], messageText = ''hello'', username = ''user-5000'',
      ablyScriptLoaded = True, mounted = True, conn = Connecting,
      calls = [Realtime_new ''/api/ably-token'',
               Channels_get (AblyClient ''/api/ably-token'') ''amana-chat'',
               Subscribe (AblyChannel (AblyClient ''/api/ably-token'') ''amana-chat'')],
      logged = []\<rparr>"
  unfolding initial_half
  by (simp add: step_def init_effect_def script_onload_def input_onChange_def Let_def)

lemma early_typing_state:
  "run [InputChange ''hello''] (initial 0.5) =
     \<lparr>ably = None, channel = None, messages = [], messageText = ''hello'',
      username = ''user-5000'', ablyScriptLoaded = False, mounted = True, conn = Idle,
      calls = [], logged = []\<rparr>"
  unfolding initial_half
  by (simp add: step_def input_onChange_def)

subsection \<open>The handles and the connection state\<close>

lemma step_handles:
  assumes "(ably s = None) = (channel s = None)" and "(channel s = None) = (conn s = Idle)"
  shows "(ably (step e s) = None) = (channel (step e s) = None)
         \<and> (channel (step e s) = None) = (conn (step e s) = Idle)"
proof (cases "mounted s")
  case False
  with assms show ?thesis by (simp add: step_def)
next
  case True
  show ?thesis
  proof (cases e)
    case ScriptOnload
    with True assms show ?thesis
      by (simp add: step_def init_effect_def script_onload_def Let_def)
  next
    case ScriptOnerror
    with True assms show ?thesis by (simp add: step_def script_onerror_def)
  next
    case (InputChange v)
    with True assms show ?thesis by (simp add: step_def input_onChange_def)
  next
    case FormSubmit
    with True assms show ?thesis
      by (auto simp: step_def handleSendMessage_def split: option.splits)
  next
    case (ChannelMessage m)
    with True assms show ?thesis
      by (auto simp: step_def on_message_def split: option.splits)
  next
    case TransportConnected
    with True assms show ?thesis by (auto simp: step_def transport_connected_def)
  next
    case TransportDropped
    with True assms show ?thesis by (auto simp: step_def transport_dropped_def)
  next
    case TransportFailed
    with True assms show ?thesis by (auto simp: step_def transport_failed_def)
  next
    case Unmount
    with True assms show ?thesis
      by (auto simp: step_def cleanup_def split: option.splits)
  qed
qed

lemma run_handles:
  "(ably s = None) = (channel s = None) \<Longrightarrow> (channel s = None) = (conn s = Idle) \<Longrightarrow>
   (channel (run es s) = None) = (conn (run es s) = Idle)"
proof (induction es arbitrary: s)
  case Nil
  then show ?case by simp
next
  case (Cons e es)
  from step_handles [OF Cons.prems, of e] Cons.IH [of "step e s"] show ?case by simp
qed

lemma reachable_handles:
  "(channel (run es (initial rnd)) = None) = (conn (run es (initial rnd)) = Idle)"
  by (rule run_handles) (simp_all add: initial_def)

lemma handleSendMessage_cases:
  "handleSendMessage s =
     (if trim (messageText s) \<noteq> [] \<and> channel s \<noteq> None
      then (Inr (), s\<lparr>calls := calls s @ [Publish (the (channel s)) (username s) (messageText s)],
                      messageText := []\<rparr>)
      else (Inr (), s))"
  by (auto simp: handleSendMessage_def split: option.splits)

text \<open>
  C1, as stated, fails. After the script has loaded the second effect has made the
  client and stored the channel, and no transport event has arrived: the session is
  \<open>Connecting\<close>. A send of \<open>hello\<close> there calls the transport's \<open>publish\<close> and returns
  no error.
\<close>

theorem publish_while_connecting_counterexample:
  "conn (run [ScriptOnload, InputChange ''hello''] (initial 0.5)) = Connecting
   \<and> fst (handleSendMessage (run [ScriptOnload, InputChange ''hello''] (initial 0.5)))
       \<noteq> Inl NotConnectedError
   \<and> calls (snd (handleSendMessage (run [ScriptOnload, InputChange ''hello''] (initial 0.5)))) =
       calls (run [ScriptOnload, InputChange ''hello''] (initial 0.5))
       @ [Publish (AblyChannel (AblyClient ''/api/ably-token'') ''amana-chat'')
            ''user-5000'' ''hello'']"
  unfolding typing_state by (simp add: handleSendMessage_def trim_hello)

text \<open>
  C1, amended. In every state the component can reach, a send returns no error. In
  \<open>Idle\<close>, where the transport has not been opened and the channel handle is null,
  it calls nothing and changes nothing. In every other connection state, \<open>Connecting\<close>,
  \<open>Suspended\<close>, \<open>Closed\<close> and \<open>Failed\<close> as well as \<open>Connected\<close>, a send whose body is not
  blank calls the transport's \<open>publish\<close> once, with the user name and the body, and
  clears the input: the handler looks at the channel handle, never at the connection
  state.
\<close>

theorem handleSendMessage_by_state:
  assumes "s = run es (initial rnd)"
  shows "fst (handleSendMessage s) = Inr ()
         \<and> (conn s = Idle \<longrightarrow> snd (handleSendMessage s) = s)
         \<and> (conn s \<noteq> Idle \<and> trim (messageText s) \<noteq> [] \<longrightarrow>
              (\<exists>ch. channel s = Some ch
                 \<and> snd (handleSendMessage s) =
                     s\<lparr>calls := calls s @ [Publish ch (username s) (messageText s)],
                       messageText := []\<rparr>))"
proof -
  from assms have h: "(channel s = None) = (conn s = Idle)"
    by (simp add: reachable_handles)
  show ?thesis
  proof (cases "channel s")
    case None
    with h show ?thesis by (simp add: handleSendMessage_def)
  next
    case (Some ch)
    with h show ?thesis by (simp add: handleSendMessage_def)
  qed
qed

theorem handleSendMessage_by_state_witness:
  "conn (run [InputChange ''hello''] (initial 0.5)) = Idle
   \<and> snd (handleSendMessage (run [InputChange ''hello''] (initial 0.5))) =
       run [InputChange ''hello''] (initial 0.5)
   \<and> conn (run [ScriptOnload, InputChange ''hello''] (initial 0.5)) \<noteq> Idle
   \<and> trim (messageText (run [ScriptOnload, InputChange ''hello''] (initial 0.5))) \<noteq> []
   \<and> (\<exists>ch. channel (run [ScriptOnload, InputChange ''hello''] (initial 0.5)) = Some ch
         \<and> snd (handleSendMessage (run [ScriptOnload, InputChange ''hello''] (initial 0.5))) =
             (run [ScriptOnload, InputChange ''hello''] (initial 0.5))
               \<lparr>calls := calls (run [ScriptOnload, InputChange ''hello''] (initial 0.5))
                   @ [Publish ch (username (run [ScriptOnload, InputChange ''hello''] (initial 0.5)))
                        (messageText (run [ScriptOnload, InputChange ''hello''] (initial 0.5)))],
                 messageText := []\<rparr>)"
proof -
  have i: "conn (run [InputChange ''hello''] (initial 0.5)) = Idle"
    unfolding early_typing_state by simp
  have c: "conn (run [ScriptOnload, InputChange ''hello''] (initial 0.5)) \<noteq> Idle"
    unfolding typing_state by simp
  have t: "trim (messageText (run [ScriptOnload, InputChange ''hello''] (initial 0.5))) \<noteq> []"
    unfolding typing_state by (simp add: trim_hello)
  from handleSendMessage_by_state [OF refl, of "[InputChange ''hello'']" "0.5"] i
  have a: "snd (handleSendMessage (run [InputChange ''hello''] (initial 0.5))) =
       run [InputChange ''hello''] (initial 0.5)" by blast
  from handleSendMessage_by_state [OF refl, of "[ScriptOnload, InputChange ''hello'']" "0.5"] c t
  have b: "\<exists>ch. channel (run [ScriptOnload, InputChange ''hello''] (initial 0.5)) = Some ch
         \<and> snd (handleSendMessage (run [ScriptOnload, InputChange ''hello''] (initial 0.5))) =
             (run [ScriptOnload, InputChange ''hello''] (initial 0.5))
               \<lparr>calls := calls (run [ScriptOnload, InputChange ''hello''] (initial 0.5))
                   @ [Publish ch (username (run [ScriptOnload, InputChange ''hello''] (initial 0.5)))
                        (messageText (run [ScriptOnload, InputChange ''hello''] (initial 0.5)))],
                 messageText := []\<rparr>" by blast
  from i a c t b show ?thesis by (intro conjI)
qed

subsection \<open>The message log\<close>

lemma fold_on_message: "messages (fold on_message ms s) = messages s @ ms"
  by (induction ms arbitrary: s) (simp_all add: on_message_def)

lemma step_messages:
  "messages (step e s) =
     (case e of
        ChannelMessage m \<Rightarrow>
          (if mounted s \<and> channel s \<noteq> None then messages s @ [m] else messages s)
      | _ \<Rightarrow> messages s)"
  by (cases e)
     (auto simp: step_def handleSendMessage_def on_message_def script_onload_def
        script_onerror_def init_effect_def input_onChange_def transport_connected_def
        transport_dropped_def transport_failed_def cleanup_def Let_def
      split: option.splits)

lemma step_prefix: "prefix (messages s) (messages (step e s))"
  by (cases e) (simp_all add: step_messages)

lemma run_prefix: "prefix (messages s) (messages (run es s))"
proof (induction es arbitrary: s)
  case Nil
  show ?case by simp
next
  case (Cons e es)
  have "prefix (messages s) (messages (step e s))" by (rule step_prefix)
  also have "prefix (messages (step e s)) (messages (run es (step e s)))" by (rule Cons.IH)
  finally show ?case by simp
qed

lemma step_ChannelMessage:
  "mounted s \<Longrightarrow> channel s \<noteq> None \<Longrightarrow> step (ChannelMessage m) s = on_message m s"
  by (auto simp: step_def split: option.splits)

lemma run_ChannelMessages:
  "mounted s \<Longrightarrow> channel s \<noteq> None \<Longrightarrow>
   messages (run (map ChannelMessage ms) s) = messages s @ ms"
proof (induction ms arbitrary: s)
  case Nil
  show ?case by simp
next
  case (Cons m ms)
  have "mounted (on_message m s)" and "channel (on_message m s) \<noteq> None"
    using Cons.prems by (simp_all add: on_message_def)
  then have "messages (run (map ChannelMessage ms) (on_message m s)) =
      messages (on_message m s) @ ms" by (rule Cons.IH)
  with Cons.prems show ?case by (simp add: step_ChannelMessage on_message_def)
qed

text \<open>
  C5. Three events handled in the order \<open>e1\<close>, \<open>e2\<close>, \<open>e3\<close> end up at the end of the log
  in that order, and so does any sequence \<open>ms\<close>, whether the handler is called
  directly or the events come through a mounted, subscribed component. No event of
  any kind, and no sequence of events, removes or reorders what is in the log: the
  old log is a prefix of the new one.
\<close>

theorem messages_append_only:
  "messages (on_message e3 (on_message e2 (on_message e1 s))) = messages s @ [e1, e2, e3]
   \<and> messages (fold on_message ms s) = messages s @ ms
   \<and> (mounted s \<and> channel s \<noteq> None \<longrightarrow>
        messages (run (map ChannelMessage ms) s) = messages s @ ms)
   \<and> prefix (messages s) (messages (step e s))
   \<and> prefix (messages s) (messages (run es s))"
  using fold_on_message [of "[e1, e2, e3]" s]
  by (simp add: fold_on_message run_ChannelMessages step_prefix run_prefix)

theorem messages_append_only_witness:
  "mounted (run [ScriptOnload] (initial 0.5))
   \<and> channel (run [ScriptOnload] (initial 0.5)) \<noteq> None
   \<and> messages (run (map ChannelMessage
         [\<lparr>msg_id = ''a1'', msg_name = ''user-1'', msg_data = ''one'', msg_timestamp = 1\<rparr>,
          \<lparr>msg_id = ''a2'', msg_name = ''user-2'', msg_data = ''two'', msg_timestamp = 2\<rparr>,
          \<lparr>msg_id = ''a3'', msg_name = ''user-1'', msg_data = ''three'', msg_timestamp = 3\<rparr>])
        (run [ScriptOnload] (initial 0.5))) =
       [\<lparr>msg_id = ''a1'', msg_name = ''user-1'', msg_data = ''one'', msg_timestamp = 1\<rparr>,
        \<lparr>msg_id = ''a2'', msg_name = ''user-2'', msg_data = ''two'', msg_timestamp = 2\<rparr>,
        \<lparr>msg_id = ''a3'', msg_name = ''user-1'', msg_data = ''three'', msg_timestamp = 3\<rparr>]"
proof -
  let ?s = "run [ScriptOnload] (initial 0.5)"
  let ?ms = "[\<lparr>msg_id = ''a1'', msg_name = ''user-1'', msg_data = ''one'', msg_timestamp = 1\<rparr>,
          \<lparr>msg_id = ''a2'', msg_name = ''user-2'', msg_data = ''two'', msg_timestamp = 2\<rparr>,
          \<lparr>msg_id = ''a3'', msg_name = ''user-1'', msg_data = ''three'', msg_timestamp = 3\<rparr>]"
  have m: "mounted ?s" and c: "channel ?s \<noteq> None" and e: "messages ?s = []"
    unfolding loaded_state by simp_all
  from messages_append_only [of _ _ _ ?s ?ms] m c
  have "messages (run (map ChannelMessage ?ms) ?s) = messages ?s @ ?ms" by blast
  with m c e show ?thesis by (simp only: append_Nil simp_thms)
qed

text \<open>
  C6. A send leaves the log as it is. The only event that changes the log is a message
  delivered to the subscription callback, which appends that message: the sender's
  own text reaches the log only when the transport brings it back.
\<close>

theorem log_grows_only_by_delivery:
  "messages (snd (handleSendMessage s)) = messages s
   \<and> messages (step FormSubmit s) = messages s
   \<and> (messages (step e s) \<noteq> messages s \<longrightarrow>
        (\<exists>m. e = ChannelMessage m \<and> messages (step e s) = messages (on_message m s)))"
proof -
  have "messages (snd (handleSendMessage s)) = messages s"
    by (simp add: handleSendMessage_cases)
  moreover have "messages (step FormSubmit s) = messages s"
    by (simp add: step_messages)
  moreover have "messages (step e s) \<noteq> messages s \<longrightarrow>
        (\<exists>m. e = ChannelMessage m \<and> messages (step e s) = messages (on_message m s))"
    by (cases e) (auto simp: step_messages on_message_def)
  ultimately show ?thesis by (intro conjI)
qed

theorem log_grows_only_by_delivery_witness:
  "messages (step (ChannelMessage
       \<lparr>msg_id = ''a1'', msg_name = ''user-5000'', msg_data = ''hello'', msg_timestamp = 1\<rparr>)
     (run [ScriptOnload] (initial 0.5))) \<noteq> messages (run [ScriptOnload] (initial 0.5))
   \<and> (\<exists>m. ChannelMessage
            \<lparr>msg_id = ''a1'', msg_name = ''user-5000'', msg_data = ''hello'', msg_timestamp = 1\<rparr>
          = ChannelMessage m
        \<and> messages (step (ChannelMessage
            \<lparr>msg_id = ''a1'', msg_name = ''user-5000'', msg_data = ''hello'', msg_timestamp = 1\<rparr>)
            (run [ScriptOnload] (initial 0.5))) =
          messages (on_message m (run [ScriptOnload] (initial 0.5))))"
proof -
  let ?s = "run [ScriptOnload] (initial 0.5)"
  let ?m = "\<lparr>msg_id = ''a1'', msg_name = ''user-5000'', msg_data = ''hello'', msg_timestamp = 1\<rparr>"
  have n: "messages (step (ChannelMessage ?m) ?s) \<noteq> messages ?s"
    unfolding loaded_state by (simp add: step_def on_message_def)
  with log_grows_only_by_delivery [of ?s "ChannelMessage ?m"]
  have "\<exists>m. ChannelMessage ?m = ChannelMessage m
        \<and> messages (step (ChannelMessage ?m) ?s) = messages (on_message m ?s)" by blast
  with n show ?thesis by (intro conjI)
qed

subsection \<open>Sending\<close>

text \<open>
  C7. A send whose text is empty after trimming returns at once: the state is what it
  was, so no call was made on the transport and nothing was modified.
\<close>

theorem blank_send_ignored:
  assumes "trim (messageText s) = []"
  shows "handleSendMessage s = (Inr (), s)"
  using assms by (simp add: handleSendMessage_def)

theorem blank_send_ignored_witness:
  "trim (messageText (run [ScriptOnload, InputChange ''   ''] (initial 0.5))) = []
   \<and> handleSendMessage (run [ScriptOnload, InputChange ''   ''] (initial 0.5)) =
       (Inr (), run [ScriptOnload, InputChange ''   ''] (initial 0.5))"
proof -
  have "messageText (run [ScriptOnload, InputChange ''   ''] (initial 0.5)) = ''   ''"
    unfolding initial_half
    by (simp add: step_def init_effect_def script_onload_def input_onChange_def Let_def)
  then have t: "trim (messageText (run [ScriptOnload, InputChange ''   ''] (initial 0.5))) = []"
    by (simp only: trim_blanks)
  from t blank_send_ignored [OF t] show ?thesis by (intro conjI)
qed

text \<open>
  C10. A send calls the transport's \<open>publish\<close> exactly when the trimmed text is not
  empty and the channel handle is not null; the input is reset to the empty string
  exactly then, and the call carries the user name and the text as typed. In every
  other case, a text typed before the channel exists among them, the send returns
  with the state unchanged, the text kept, and no error.
\<close>

theorem send_clears_iff_published:
  assumes "s' = snd (handleSendMessage s)"
  shows "(calls s' \<noteq> calls s) = (trim (messageText s) \<noteq> [] \<and> channel s \<noteq> None)
         \<and> (messageText s' = [] \<and> messageText s \<noteq> []) = (calls s' \<noteq> calls s)
         \<and> (trim (messageText s) \<noteq> [] \<and> channel s \<noteq> None \<longrightarrow>
              (\<exists>ch. channel s = Some ch
                 \<and> calls s' = calls s @ [Publish ch (username s) (messageText s)]))
         \<and> (trim (messageText s) \<noteq> [] \<and> channel s = None \<longrightarrow>
              handleSendMessage s = (Inr (), s))
         \<and> fst (handleSendMessage s) = Inr ()"
proof (cases "trim (messageText s) \<noteq> [] \<and> channel s \<noteq> None")
  case True
  then have "messageText s \<noteq> []" using trim_nonempty by blast
  with True assms show ?thesis by (auto simp: handleSendMessage_cases)
next
  case False
  then have h: "handleSendMessage s = (Inr (), s)"
    by (auto simp: handleSendMessage_def split: option.splits)
  with assms have "s' = s" by simp
  with False h show ?thesis by auto
qed

theorem send_clears_iff_published_witness:
  "trim (messageText (run [InputChange ''hello''] (initial 0.5))) \<noteq> []
   \<and> channel (run [InputChange ''hello''] (initial 0.5)) = None
   \<and> handleSendMessage (run [InputChange ''hello''] (initial 0.5)) =
       (Inr (), run [InputChange ''hello''] (initial 0.5))
   \<and> trim (messageText (run [ScriptOnload, InputChange ''hello''] (initial 0.5))) \<noteq> []
   \<and> channel (run [ScriptOnload, InputChange ''hello''] (initial 0.5)) \<noteq> None
   \<and> messageText (snd (handleSendMessage (run [ScriptOnload, InputChange ''hello''] (initial 0.5)))) = []"
proof -
  let ?i = "run [InputChange ''hello''] (initial 0.5)"
  let ?c = "run [ScriptOnload, InputChange ''hello''] (initial 0.5)"
  have t: "trim (messageText ?i) \<noteq> []" and n: "channel ?i = None"
    unfolding early_typing_state by (simp_all add: trim_hello)
  have u: "trim (messageText ?c) \<noteq> []" and m: "channel ?c \<noteq> None"
    unfolding typing_state by (simp_all add: trim_hello)
  from send_clears_iff_published [OF refl, of ?i] t n
  have a: "handleSendMessage ?i = (Inr (), ?i)" by blast
  from send_clears_iff_published [OF refl, of ?c] u m
  have b: "messageText (snd (handleSendMessage ?c)) = []" by blast
  from t n a u m b show ?thesis by (intro conjI)
qed

subsection \<open>Teardown\<close>




end
